theory Spec2Isabelle
  imports Main "HOL-Library.Sublist"
begin

section \<open>The remote bootstrap runner (infra/remote-setup.py)\<close>

text \<open>
  The script is a straight-line program with one \<^verbatim>\<open>try\<close>/\<^verbatim>\<open>except\<close>. It is modelled as a
  machine whose program points are the line numbers of the source, running against a
  \<open>world\<close> that answers the two things the script asks of its environment: the read of
  the sibling shell script, and the call of \<^verbatim>\<open>subprocess.run\<close>.
\<close>

subsection \<open>Strings and printing\<close>

definition newline :: string where
  "newline = [CHR 0x0A]"

text \<open>
  The two characters backslash and \<open>r\<close>, which the source writes \<^verbatim>\<open>\\r\<close> inside its
  (non-raw) f-string: the transcript holds them literally.
\<close>

definition backslash_r :: string where
  "backslash_r = [CHR 0x5C, CHR ''r'']"

text \<open>\<^verbatim>\<open>sep.join(args)\<close> with the separator a single space, as \<^verbatim>\<open>print\<close> uses it.\<close>

fun join_spaces :: "string list \<Rightarrow> string" where
  "join_spaces [] = []"
| "join_spaces [x] = x"
| "join_spaces (x # y # ys) = x @ '' '' @ join_spaces (y # ys)"

text \<open>The text one call \<^verbatim>\<open>print(a, b, ...)\<close> writes: the arguments, a space between, a newline.\<close>

definition py_print :: "string list \<Rightarrow> string" where
  "py_print args = join_spaces args @ newline"

subsection \<open>Paths (the POSIX \<^verbatim>\<open>os.path\<close>)\<close>

definition rstrip_sep :: "string \<Rightarrow> string" where
  "rstrip_sep p = rev (dropWhile (\<lambda>c. c = CHR ''/'') (rev p))"

text \<open>
  \<^verbatim>\<open>os.path.dirname\<close>: everything up to and including the last slash, with trailing slashes
  removed unless the head is made of slashes only.
\<close>

definition os_path_dirname :: "string \<Rightarrow> string" where
  "os_path_dirname p =
     (let head = rev (dropWhile (\<lambda>c. c \<noteq> CHR ''/'') (rev p))
      in if head \<noteq> [] \<and> head \<noteq> replicate (length head) (CHR ''/'')
         then rstrip_sep head else head)"

text \<open>\<^verbatim>\<open>os.path.join(a, b)\<close> for two components.\<close>

definition os_path_join :: "string \<Rightarrow> string \<Rightarrow> string" where
  "os_path_join a b =
     (if b \<noteq> [] \<and> hd b = CHR ''/'' then b
      else if a = [] \<or> last a = CHR ''/'' then a @ b
      else a @ ''/'' @ b)"

subsection \<open>The constants of the script (lines 6 to 8)\<close>

definition VPS_IP :: string where
  "VPS_IP = ''159.89.113.242''"

definition VPS_USER :: string where
  "VPS_USER = ''root''"

definition VPS_PASS :: string where
  "VPS_PASS = ''AVallon1231402@rooot''"

subsection \<open>The session transcript (lines 16 to 28)\<close>

text \<open>
  The f-string of the source, line by line. The four interpolated values are parameters;
  the script instantiates them with its three constants and the text it read.
\<close>

definition expect_script_text :: "string \<Rightarrow> string \<Rightarrow> string \<Rightarrow> string \<Rightarrow> string" where
  "expect_script_text user ip pass body =
     ''#!/usr/bin/expect -f'' @ newline @
     ''set timeout 300'' @ newline @
     ''spawn ssh -o StrictHostKeyChecking=no '' @ user @ ''@'' @ ip @ newline @
     ''expect \"password:\"'' @ newline @
     ''send \"'' @ pass @ backslash_r @ ''\"'' @ newline @
     ''expect \"# \"'' @ newline @
     ''send \"bash << 'REMOTE_SCRIPT'' @ [CHR 0x27] @ backslash_r @ ''\"'' @ newline @
     ''send \"'' @ body @ ''\"'' @ newline @
     ''send \"REMOTE_SCRIPT'' @ backslash_r @ ''\"'' @ newline @
     ''expect \"# \"'' @ newline @
     ''send \"exit'' @ backslash_r @ ''\"'' @ newline @
     ''expect eof'' @ newline"

subsection \<open>The environment\<close>

datatype py_exception =
    FileNotFoundError
  | PermissionError
  | IsADirectoryError
  | UnicodeDecodeError
  | OSError
  | ValueError
  | NameError
  | TimeoutExpired

text \<open>The \<^verbatim>\<open>CompletedProcess\<close> of \<^verbatim>\<open>subprocess.run(..., capture_output=True, text=True)\<close>.\<close>

record completed_process =
  stdout :: string
  stderr :: string
  returncode :: int

text \<open>
  What a call of \<^verbatim>\<open>subprocess.run\<close> comes to:
  \<^item> \<open>Cannot_execute e\<close>: the program could not be executed and the call raises \<open>e\<close>
    (\<open>FileNotFoundError\<close> when no such program is on the search path); no child program
    ever runs;
  \<^item> \<open>Timed_out\<close>: the child ran, did not finish within the timeout and was killed; the
    call raises \<open>TimeoutExpired\<close>;
  \<^item> \<open>Returned r\<close>: the child ran and ended; the call returns \<open>r\<close>.
\<close>

datatype run_reply =
    Cannot_execute py_exception
  | Timed_out
  | Returned completed_process

text \<open>
  The world of one run. \<open>files\<close> maps a path to what \<^verbatim>\<open>open(path, 'r')\<close> and \<^verbatim>\<open>read()\<close>
  give: no entry is a missing file, \<open>Inl e\<close> any other failure of the read, \<open>Inr t\<close> its
  text. \<open>subprocess_reply\<close> answers a call by its argument vector and timeout. The clock
  and the process environment are there; the script reads neither.
\<close>

record world =
  dunder_file :: string
  files :: "string \<rightharpoonup> (py_exception + string)"
  subprocess_reply :: "string list \<Rightarrow> nat \<Rightarrow> run_reply"
  clock :: nat
  environ :: "string \<rightharpoonup> string"

definition open_read :: "world \<Rightarrow> string \<Rightarrow> py_exception + string" where
  "open_read w path =
     (case files w path of None \<Rightarrow> Inl FileNotFoundError | Some r \<Rightarrow> r)"

subsection \<open>The machine\<close>

text \<open>
  What the script does to the outside, in order: a write to one of its two streams, a call
  of \<^verbatim>\<open>subprocess.run\<close> (argument vector and timeout in seconds), and the start of a child
  program by such a call.
\<close>

datatype event =
    Write_stdout string
  | Write_stderr string
  | Subprocess_run "string list" nat
  | Child_started "string list"

text \<open>The variables of the script (unbound until assigned) and the events so far.\<close>

record state =
  script_path :: "string option"
  setup_script :: "string option"
  expect_script :: "string option"
  result :: "completed_process option"
  trace :: "event list"

definition init_state :: state where
  "init_state = \<lparr>script_path = None, setup_script = None, expect_script = None,
                  result = None, trace = []\<rparr>"

definition emit :: "event \<Rightarrow> state \<Rightarrow> state" where
  "emit e st = st\<lparr>trace := trace st @ [e]\<rparr>"

text \<open>
  How a run ends: \<open>Exit n\<close> when \<^verbatim>\<open>sys.exit(n)\<close> reaches the top level, \<open>Traceback e\<close> when
  the exception \<open>e\<close> does. In the second case the interpreter then writes a traceback to
  the error stream; that text is the interpreter's, not the script's, and the trace of a
  run, which records what the statements of the script do, does not hold it.
\<close>

datatype outcome = Exit int | Traceback py_exception

text \<open>
  The status the process ends with, as the parent sees it on a 64-bit POSIX system. After
  \<^verbatim>\<open>sys.exit(n)\<close> the interpreter converts \<open>n\<close> to a C \<^verbatim>\<open>long\<close> (\<open>-1\<close> when it does not fit)
  and the operating system keeps the low eight bits: \<^verbatim>\<open>sys.exit(-9)\<close> ends with 247,
  \<^verbatim>\<open>sys.exit(256)\<close> with 0. After an uncaught exception the status is 1.
\<close>

fun exit_status :: "outcome \<Rightarrow> int" where
  "exit_status (Exit n) = (if - (2 ^ 63) \<le> n \<and> n < 2 ^ 63 then n mod 256 else 255)"
| "exit_status (Traceback e) = 1"

text \<open>Program points: the source lines that hold a statement.\<close>

datatype pc =
    L11 | L12 | L16 | L32 | L38 | L39 | L40 | L41
  | L43 | L45 | L46 | L47 | L48 | L49 | L50 | L51 | L52 | L53

datatype control = At pc | Done outcome

text \<open>
  An exception raised inside the \<^verbatim>\<open>try\<close> block (lines 32 to 41): the only handler is
  \<^verbatim>\<open>except FileNotFoundError\<close>, at line 42, whose body starts at line 43.
\<close>

definition raise_in_try :: "py_exception \<Rightarrow> state \<Rightarrow> control \<times> state" where
  "raise_in_try e st =
     (if e = FileNotFoundError then (At L43, st) else (Done (Traceback e), st))"

definition rule60 :: string where
  "rule60 = replicate 60 (CHR ''='')"

text \<open>
  Line 11: the path of the shell script, beside the running script
  (\<open>dunder_file\<close> is \<^verbatim>\<open>__file__\<close>).
\<close>

definition setup_script_path :: "world \<Rightarrow> string" where
  "setup_script_path w =
     os_path_join (os_path_dirname (dunder_file w)) ''setup-on-server.sh''"

fun step :: "world \<Rightarrow> pc \<Rightarrow> state \<Rightarrow> control \<times> state" where
  "step w L11 st = (At L12, st\<lparr>script_path := Some (setup_script_path w)\<rparr>)"
| "step w L12 st =
     (case script_path st of
        None \<Rightarrow> (Done (Traceback NameError), st)
      | Some p \<Rightarrow>
          (case open_read w p of
             Inl e \<Rightarrow> (Done (Traceback e), st)
           | Inr t \<Rightarrow> (At L16, st\<lparr>setup_script := Some t\<rparr>)))"
| "step w L16 st =
     (case setup_script st of
        None \<Rightarrow> (Done (Traceback NameError), st)
      | Some body \<Rightarrow>
          (At L32, st\<lparr>expect_script :=
             Some (expect_script_text VPS_USER VPS_IP VPS_PASS body)\<rparr>))"
| "step w L32 st =
     (case expect_script st of
        None \<Rightarrow> raise_in_try NameError st
      | Some t \<Rightarrow>
          (let argv = [''expect'', ''-c'', t];
               st1 = emit (Subprocess_run argv 600) st
           in case subprocess_reply w argv 600 of
                Cannot_execute e \<Rightarrow> raise_in_try e st1
              | Timed_out \<Rightarrow> raise_in_try TimeoutExpired (emit (Child_started argv) st1)
              | Returned r \<Rightarrow> (At L38, (emit (Child_started argv) st1)\<lparr>result := Some r\<rparr>)))"
| "step w L38 st =
     (case result st of
        None \<Rightarrow> raise_in_try NameError st
      | Some r \<Rightarrow> (At L39, emit (Write_stdout (py_print [stdout r])) st))"
| "step w L39 st =
     (case result st of
        None \<Rightarrow> raise_in_try NameError st
      | Some r \<Rightarrow> (if stderr r \<noteq> [] then (At L40, st) else (At L41, st)))"
| "step w L40 st =
     (case result st of
        None \<Rightarrow> raise_in_try NameError st
      | Some r \<Rightarrow> (At L41, emit (Write_stderr (py_print [''STDERR:'', stderr r])) st))"
| "step w L41 st =
     (case result st of
        None \<Rightarrow> raise_in_try NameError st
      | Some r \<Rightarrow> (Done (Exit (returncode r)), st))"
| "step w L43 st =
     (At L45, emit (Write_stdout (py_print [''expect not found. Trying alternative method...''])) st)"
| "step w L45 st =
     (At L46, emit (Write_stdout (py_print [newline @ rule60])) st)"
| "step w L46 st =
     (At L47, emit (Write_stdout (py_print [''Please run this command manually:''])) st)"
| "step w L47 st =
     (At L48, emit (Write_stdout (py_print [rule60])) st)"
| "step w L48 st =
     (At L49, emit (Write_stdout (py_print
        [newline @ ''scp infra/setup-on-server.sh root@'' @ VPS_IP @ '':/tmp/''])) st)"
| "step w L49 st =
     (At L50, emit (Write_stdout (py_print [newline @ ''ssh root@'' @ VPS_IP])) st)"
| "step w L50 st =
     (At L51, emit (Write_stdout (py_print [''chmod +x /tmp/setup-on-server.sh''])) st)"
| "step w L51 st =
     (At L52, emit (Write_stdout (py_print [''/tmp/setup-on-server.sh''])) st)"
| "step w L52 st =
     (At L53, emit (Write_stdout (py_print [newline @ rule60])) st)"
| "step w L53 st = (Done (Exit 1), st)"

text \<open>The order of the program points in the source.\<close>

fun rank :: "pc \<Rightarrow> nat" where
  "rank L11 = 0" | "rank L12 = 1" | "rank L16 = 2" | "rank L32 = 3" | "rank L38 = 4"
| "rank L39 = 5" | "rank L40 = 6" | "rank L41 = 7" | "rank L43 = 8" | "rank L45 = 9"
| "rank L46 = 10" | "rank L47 = 11" | "rank L48 = 12" | "rank L49 = 13" | "rank L50 = 14"
| "rank L51 = 15" | "rank L52 = 16" | "rank L53 = 17"

lemma rank_bound: "rank p \<le> 17"
  by (cases p) simp_all

lemma step_forward: "fst (step w p st) = At q \<Longrightarrow> rank p < rank q"
  by (cases p)
     (auto simp: raise_in_try_def Let_def
           split: option.splits sum.splits run_reply.splits if_splits)

text \<open>A run from a program point: steps until the script ends. There is no loop.\<close>

function run :: "world \<Rightarrow> pc \<Rightarrow> state \<Rightarrow> outcome \<times> state" where
  "run w p st =
     (case fst (step w p st) of
        At q \<Rightarrow> run w q (snd (step w p st))
      | Done r \<Rightarrow> (r, snd (step w p st)))"
  by pat_completeness auto
termination
proof (relation "measure (\<lambda>(w, p, st). 18 - rank p)")
  show "wf (measure (\<lambda>(w, p, st). 18 - rank p))"
    by simp
next
  fix w p st q
  assume "fst (step w p st) = At q"
  then have "rank p < rank q"
    by (rule step_forward)
  moreover have "rank q \<le> 17"
    by (rule rank_bound)
  ultimately show "((w, q, snd (step w p st)), (w, p, st)) \<in> measure (\<lambda>(w, p, st). 18 - rank p)"
    by simp
qed

declare run.simps [simp del]

text \<open>The script: the run from its first statement, no variable bound, nothing done yet.\<close>

definition main :: "world \<Rightarrow> outcome \<times> state" where
  "main w = run w L11 init_state"

text \<open>
  The configurations a run goes through, in order: each program point with the state
  there, and last the outcome with the final state.
\<close>

function trajectory :: "world \<Rightarrow> pc \<Rightarrow> state \<Rightarrow> (control \<times> state) list" where
  "trajectory w p st =
     (At p, st) #
     (case fst (step w p st) of
        At q \<Rightarrow> trajectory w q (snd (step w p st))
      | Done r \<Rightarrow> [(Done r, snd (step w p st))])"
  by pat_completeness auto
termination
proof (relation "measure (\<lambda>(w, p, st). 18 - rank p)")
  show "wf (measure (\<lambda>(w, p, st). 18 - rank p))"
    by simp
next
  fix w p st q
  assume "fst (step w p st) = At q"
  then have "rank p < rank q"
    by (rule step_forward)
  moreover have "rank q \<le> 17"
    by (rule rank_bound)
  ultimately show "((w, q, snd (step w p st)), (w, p, st)) \<in> measure (\<lambda>(w, p, st). 18 - rank p)"
    by simp
qed

declare trajectory.simps [simp del]

definition configs :: "world \<Rightarrow> (control \<times> state) list" where
  "configs w = trajectory w L11 init_state"

subsection \<open>Reading a trace\<close>

text \<open>
  All the text the script writes to standard output, and to the error stream. What the
  interpreter writes after the script has ended (the traceback of an uncaught exception)
  is not part of it.
\<close>

fun stdout_text :: "event list \<Rightarrow> string" where
  "stdout_text [] = []"
| "stdout_text (Write_stdout t # es) = t @ stdout_text es"
| "stdout_text (e # es) = stdout_text es"

fun stderr_text :: "event list \<Rightarrow> string" where
  "stderr_text [] = []"
| "stderr_text (Write_stderr t # es) = t @ stderr_text es"
| "stderr_text (e # es) = stderr_text es"

text \<open>The calls of \<^verbatim>\<open>subprocess.run\<close>, and the child programs that started.\<close>

fun calls :: "event list \<Rightarrow> (string list \<times> nat) list" where
  "calls [] = []"
| "calls (Subprocess_run argv t # es) = (argv, t) # calls es"
| "calls (e # es) = calls es"

fun children :: "event list \<Rightarrow> string list list" where
  "children [] = []"
| "children (Child_started argv # es) = argv # children es"
| "children (e # es) = children es"

text \<open>
  The argument vector of line 33 for a given shell script text, and the text the nine
  \<^verbatim>\<open>print\<close> calls of the handler (lines 43 to 52) write, in order.
\<close>

definition expect_argv :: "string \<Rightarrow> string list" where
  "expect_argv body =
     [''expect'', ''-c'', expect_script_text VPS_USER VPS_IP VPS_PASS body]"

definition fallback_block :: string where
  "fallback_block =
     py_print [''expect not found. Trying alternative method...''] @
     py_print [newline @ rule60] @
     py_print [''Please run this command manually:''] @
     py_print [rule60] @
     py_print [newline @ ''scp infra/setup-on-server.sh root@'' @ VPS_IP @ '':/tmp/''] @
     py_print [newline @ ''ssh root@'' @ VPS_IP] @
     py_print [''chmod +x /tmp/setup-on-server.sh''] @
     py_print [''/tmp/setup-on-server.sh''] @
     py_print [newline @ rule60]"

subsection \<open>The session the specification describes\<close>

text \<open>
  The specification lists the transcript as a sequence of commands of the automation
  utility. This is that sequence, following the specification's words, and its rendering
  as text: the interpreter line, then one command per line. It is compared below with
  \<open>expect_script_text\<close>, which follows the source.
\<close>

datatype expect_cmd =
    Set_timeout nat
  | Spawn "string list"
  | Expect string
  | Send string
  | Expect_eof

definition digit :: "nat \<Rightarrow> char" where
  "digit d = ''0123456789'' ! d"

function decimal :: "nat \<Rightarrow> string" where
  "decimal n = (if n < 10 then [digit n] else decimal (n div 10) @ [digit (n mod 10)])"
  by pat_completeness auto
termination
  by (relation "measure id") auto

declare decimal.simps [simp del]

definition quoted :: "string \<Rightarrow> string" where
  "quoted s = [CHR 0x22] @ s @ [CHR 0x22]"

fun render_cmd :: "expect_cmd \<Rightarrow> string" where
  "render_cmd (Set_timeout n) = ''set timeout '' @ decimal n"
| "render_cmd (Spawn argv) = ''spawn '' @ join_spaces argv"
| "render_cmd (Expect pat) = ''expect '' @ quoted pat"
| "render_cmd (Send s) = ''send '' @ quoted s"
| "render_cmd Expect_eof = ''expect eof''"

definition render_session :: "expect_cmd list \<Rightarrow> string" where
  "render_session cmds =
     ''#!/usr/bin/expect -f'' @ newline @ concat (map (\<lambda>c. render_cmd c @ newline) cmds)"

definition session_steps :: "string \<Rightarrow> string \<Rightarrow> string \<Rightarrow> string \<Rightarrow> expect_cmd list" where
  "session_steps user ip pass body =
     [Set_timeout 300,
      Spawn [''ssh'', ''-o'', ''StrictHostKeyChecking=no'', user @ ''@'' @ ip],
      Expect ''password:'',
      Send (pass @ backslash_r),
      Expect ''# '',
      Send (''bash << 'REMOTE_SCRIPT'' @ [CHR 0x27] @ backslash_r),
      Send body,
      Send (''REMOTE_SCRIPT'' @ backslash_r),
      Expect ''# '',
      Send (''exit'' @ backslash_r),
      Expect_eof]"

text \<open>The state after line 16: the three variables bound, nothing done to the outside yet.\<close>

definition built :: "world \<Rightarrow> string \<Rightarrow> state" where
  "built w body = \<lparr>script_path = Some (setup_script_path w), setup_script = Some body,
      expect_script = Some (expect_script_text VPS_USER VPS_IP VPS_PASS body),
      result = None, trace = []\<rparr>"

text \<open>
  A state in which line 32 has run for the shell script text \<open>body\<close>: the text and the
  transcript are bound, and the one call made so far took the transcript.
\<close>

definition after_call :: "string \<Rightarrow> state \<Rightarrow> bool" where
  "after_call body st \<longleftrightarrow>
     setup_script st = Some body \<and>
     expect_script st = Some (expect_script_text VPS_USER VPS_IP VPS_PASS body) \<and>
     calls (trace st) = [(expect_argv body, 600)]"

subsection \<open>Sample worlds\<close>

text \<open>
  A world in which the script is started as \<^verbatim>\<open>infra/remote-setup.py\<close>: \<open>f\<close> is what the
  read of \<^verbatim>\<open>infra/setup-on-server.sh\<close> gives (\<open>None\<close>: no such file), and \<open>r\<close> is the
  answer to every call of \<^verbatim>\<open>subprocess.run\<close>.
\<close>

definition sample_world :: "(py_exception + string) option \<Rightarrow> run_reply \<Rightarrow> world" where
  "sample_world f r =
     \<lparr>dunder_file = ''infra/remote-setup.py'',
      files = (\<lambda>p. if p = ''infra/setup-on-server.sh'' then f else None),
      subprocess_reply = (\<lambda>argv t. r),
      clock = 0,
      environ = Map.empty\<rparr>"

text \<open>
  Another world: the script lives elsewhere, other files exist, the utility hangs, the
  clock and the process environment differ. The shell script has the same text.
\<close>

definition other_world :: world where
  "other_world =
     \<lparr>dunder_file = ''/opt/app/infra/remote-setup.py'',
      files = [''/opt/app/infra/setup-on-server.sh'' \<mapsto> Inr ''echo hello'',
               ''/etc/hostname'' \<mapsto> Inr ''box''],
      subprocess_reply = (\<lambda>argv t. Timed_out),
      clock = 1762250000,
      environ = [''HOME'' \<mapsto> ''/root'']\<rparr>"

section \<open>The transcript\<close>

lemma decimal_300: "decimal 300 = ''300''"
  by (simp add: decimal.simps digit_def)

lemma transcript_split:
  "expect_script_text user ip pass body =
     (''#!/usr/bin/expect -f'' @ newline @
      ''set timeout 300'' @ newline @
      ''spawn ssh -o StrictHostKeyChecking=no '' @ user @ ''@'' @ ip @ newline @
      ''expect '' @ quoted ''password:'' @ newline @
      ''send '' @ quoted (pass @ backslash_r) @ newline @
      ''expect '' @ quoted ''# '' @ newline @
      ''send '' @ quoted (''bash << 'REMOTE_SCRIPT'' @ [CHR 0x27] @ backslash_r) @ newline) @
     (''send '' @ quoted body) @
     (newline @
      ''send '' @ quoted (''REMOTE_SCRIPT'' @ backslash_r) @ newline @
      ''expect '' @ quoted ''# '' @ newline @
      ''send '' @ quoted (''exit'' @ backslash_r) @ newline @
      ''expect eof'' @ newline)"
  by (simp add: expect_script_text_def quoted_def)

lemma transcript_holds_body_block:
  "sublist (''send '' @ quoted body) (expect_script_text user ip pass body)"
  unfolding transcript_split by (rule sublist_appendI)


lemma transcript_holds_password: "sublist pass (expect_script_text user ip pass body)"
proof -
  have "expect_script_text user ip pass body =
     (''#!/usr/bin/expect -f'' @ newline @
      ''set timeout 300'' @ newline @
      ''spawn ssh -o StrictHostKeyChecking=no '' @ user @ ''@'' @ ip @ newline @
      ''expect \"password:\"'' @ newline @ ''send \"'') @
     pass @
     (backslash_r @ ''\"'' @ newline @
      ''expect \"# \"'' @ newline @
      ''send \"bash << 'REMOTE_SCRIPT'' @ [CHR 0x27] @ backslash_r @ ''\"'' @ newline @
      ''send \"'' @ body @ ''\"'' @ newline @
      ''send \"REMOTE_SCRIPT'' @ backslash_r @ ''\"'' @ newline @
      ''expect \"# \"'' @ newline @
      ''send \"exit'' @ backslash_r @ ''\"'' @ newline @
      ''expect eof'' @ newline)"
    by (simp add: expect_script_text_def)
  then show ?thesis
    by (metis sublist_appendI)
qed

text \<open>
  Claim C3. For every shell script text, the transcript the source builds is the text of
  the session the specification lists: a 300-second timeout, an SSH connection with
  host-key checking off, the wait for the password prompt, the password, the wait for the
  shell prompt, the opening of the here-document, the whole script text as one \<open>send\<close>
  block, the closing of the here-document, the wait for the prompt, \<open>exit\<close>, and the wait
  for the end of the session. For the text \<open>echo hello\<close> the transcript holds
  \<open>send "echo hello"\<close>, and it always holds the password. This is a statement about the
  text of the transcript; how the automation utility reads that text is not part of the
  script.
\<close>

theorem transcript_is_the_specified_session:
  "expect_script_text user ip pass body = render_session (session_steps user ip pass body)
   \<and> sublist (''send '' @ quoted ''echo hello'')
         (expect_script_text VPS_USER VPS_IP VPS_PASS ''echo hello'')
   \<and> sublist (''send '' @ quoted body) (expect_script_text VPS_USER VPS_IP VPS_PASS body)
   \<and> sublist VPS_PASS (expect_script_text VPS_USER VPS_IP VPS_PASS body)"
proof -
  have "expect_script_text user ip pass body = render_session (session_steps user ip pass body)"
    by (simp add: expect_script_text_def render_session_def session_steps_def quoted_def
        decimal_300)
  moreover have "sublist (''send '' @ quoted b) (expect_script_text VPS_USER VPS_IP VPS_PASS b)"
    for b
    by (rule transcript_holds_body_block)
  moreover have "sublist VPS_PASS (expect_script_text VPS_USER VPS_IP VPS_PASS body)"
    by (rule transcript_holds_password)
  ultimately show ?thesis
    by blast
qed

section \<open>The runs of the script\<close>

text \<open>The five ways a run can go, each with its outcome and final state.\<close>

lemma run_to_L32:
  assumes "open_read w (setup_script_path w) = Inr body"
  shows "main w = run w L32 (built w body)"
  using assms by (simp add: main_def run.simps [of w L11] run.simps [of w L12] run.simps [of w L16] init_state_def built_def)

lemma main_read_fails:
  assumes "open_read w (setup_script_path w) = Inl e"
  shows "main w = (Traceback e, init_state\<lparr>script_path := Some (setup_script_path w)\<rparr>)"
  using assms by (simp add: main_def run.simps init_state_def)

lemma main_cannot_execute:
  assumes "open_read w (setup_script_path w) = Inr body"
    and "subprocess_reply w (expect_argv body) 600 = Cannot_execute e"
    and "e \<noteq> FileNotFoundError"
  shows "main w = (Traceback e, (built w body)\<lparr>trace := [Subprocess_run (expect_argv body) 600]\<rparr>)"
  using assms by (simp add: main_def run.simps init_state_def built_def expect_argv_def emit_def raise_in_try_def Let_def)

lemma main_timeout:
  assumes "open_read w (setup_script_path w) = Inr body"
    and "subprocess_reply w (expect_argv body) 600 = Timed_out"
  shows "main w = (Traceback TimeoutExpired, (built w body)\<lparr>trace :=
            [Subprocess_run (expect_argv body) 600, Child_started (expect_argv body)]\<rparr>)"
  using assms by (simp add: main_def run.simps init_state_def built_def expect_argv_def emit_def raise_in_try_def Let_def)

lemma main_returned:
  assumes "open_read w (setup_script_path w) = Inr body"
    and "subprocess_reply w (expect_argv body) 600 = Returned r"
  shows "main w = (Exit (returncode r), (built w body)\<lparr>result := Some r, trace :=
       [Subprocess_run (expect_argv body) 600, Child_started (expect_argv body),
        Write_stdout (stdout r @ newline)] @
       (if stderr r \<noteq> [] then [Write_stderr (''STDERR: '' @ stderr r @ newline)] else [])\<rparr>)"
  using assms by (simp add: main_def run.simps init_state_def built_def expect_argv_def emit_def raise_in_try_def Let_def py_print_def)

lemma main_not_found:
  assumes "open_read w (setup_script_path w) = Inr body"
    and "subprocess_reply w (expect_argv body) 600 = Cannot_execute FileNotFoundError"
  shows "main w = (Exit 1, (built w body)\<lparr>trace := [Subprocess_run (expect_argv body) 600,
       Write_stdout (py_print [''expect not found. Trying alternative method...'']),
       Write_stdout (py_print [newline @ rule60]),
       Write_stdout (py_print [''Please run this command manually:'']),
       Write_stdout (py_print [rule60]),
       Write_stdout (py_print [newline @ ''scp infra/setup-on-server.sh root@'' @ VPS_IP @ '':/tmp/'']),
       Write_stdout (py_print [newline @ ''ssh root@'' @ VPS_IP]),
       Write_stdout (py_print [''chmod +x /tmp/setup-on-server.sh'']),
       Write_stdout (py_print [''/tmp/setup-on-server.sh'']),
       Write_stdout (py_print [newline @ rule60])]\<rparr>)"
  using assms by (simp add: main_def run.simps init_state_def built_def expect_argv_def emit_def raise_in_try_def Let_def)

lemma run_cases [case_names read_fails not_found cannot_execute timeout returned]:
  obtains
    (read_fails) e where "open_read w (setup_script_path w) = Inl e"
  | (not_found) body where "open_read w (setup_script_path w) = Inr body"
      and "subprocess_reply w (expect_argv body) 600 = Cannot_execute FileNotFoundError"
  | (cannot_execute) body e where "open_read w (setup_script_path w) = Inr body"
      and "subprocess_reply w (expect_argv body) 600 = Cannot_execute e"
      and "e \<noteq> FileNotFoundError"
  | (timeout) body where "open_read w (setup_script_path w) = Inr body"
      and "subprocess_reply w (expect_argv body) 600 = Timed_out"
  | (returned) body r where "open_read w (setup_script_path w) = Inr body"
      and "subprocess_reply w (expect_argv body) 600 = Returned r"
proof (cases "open_read w (setup_script_path w)")
  case (Inl e)
  then show ?thesis by (rule read_fails)
next
  case (Inr body)
  show ?thesis
  proof (cases "subprocess_reply w (expect_argv body) 600")
    case (Cannot_execute e)
    show ?thesis
    proof (cases "e = FileNotFoundError")
      case True
      with Inr Cannot_execute show ?thesis by (simp add: not_found)
    next
      case False
      with Inr Cannot_execute show ?thesis by (rule cannot_execute)
    qed
  next
    case Timed_out
    with Inr show ?thesis by (rule timeout)
  next
    case (Returned r)
    with Inr show ?thesis by (rule returned)
  qed
qed

lemma calls_main:
  "calls (trace (snd (main w))) =
     (case open_read w (setup_script_path w) of
        Inl e \<Rightarrow> [] | Inr body \<Rightarrow> [(expect_argv body, 600)])"
proof (cases w rule: run_cases)
  case (read_fails e)
  then show ?thesis by (simp add: main_read_fails init_state_def)
next
  case (not_found body)
  then show ?thesis by (simp add: main_not_found built_def)
next
  case (cannot_execute body e)
  then show ?thesis by (simp add: main_cannot_execute built_def)
next
  case (timeout body)
  then show ?thesis by (simp add: main_timeout built_def)
next
  case (returned body r)
  then show ?thesis by (simp add: main_returned built_def)
qed

lemma call_made:
  assumes "(argv, t) \<in> set (calls (trace (snd (main w))))"
  obtains body where "open_read w (setup_script_path w) = Inr body"
    and "argv = expect_argv body" and "t = 600"
  using assms unfolding calls_main by (cases "open_read w (setup_script_path w)") auto

lemma stdout_text_fallback:
  "stdout_text [Subprocess_run argv t,
       Write_stdout (py_print [''expect not found. Trying alternative method...'']),
       Write_stdout (py_print [newline @ rule60]),
       Write_stdout (py_print [''Please run this command manually:'']),
       Write_stdout (py_print [rule60]),
       Write_stdout (py_print [newline @ ''scp infra/setup-on-server.sh root@'' @ VPS_IP @ '':/tmp/'']),
       Write_stdout (py_print [newline @ ''ssh root@'' @ VPS_IP]),
       Write_stdout (py_print [''chmod +x /tmp/setup-on-server.sh'']),
       Write_stdout (py_print [''/tmp/setup-on-server.sh'']),
       Write_stdout (py_print [newline @ rule60])] = fallback_block"
  by (simp add: fallback_block_def)

lemma sample_path: "setup_script_path (sample_world f r) = ''infra/setup-on-server.sh''"
  by (simp add: setup_script_path_def sample_world_def os_path_dirname_def os_path_join_def
      rstrip_sep_def)

lemma sample_files: "files (sample_world f r) ''infra/setup-on-server.sh'' = f"
  by (simp add: sample_world_def)

lemma sample_read:
  "open_read (sample_world (Some x) r) (setup_script_path (sample_world (Some x) r)) = x"
  by (simp add: sample_path open_read_def sample_files)

lemma sample_reply: "subprocess_reply (sample_world f r) argv t = r"
  by (simp add: sample_world_def)

lemma sample_call:
  "(expect_argv body, 600) \<in> set (calls (trace (snd (main (sample_world (Some (Inr body)) r)))))"
  by (simp add: calls_main sample_read)

text \<open>
  Claim C1 says that every return code of the utility becomes, exactly, the exit status of
  the script. A child killed by signal 9 has the return code \<open>-9\<close>; the script passes it to
  \<^verbatim>\<open>sys.exit\<close> (line 41), and the process ends with status 247.
\<close>

theorem exit_status_wraps_counterexample:
  "subprocess_reply
      (sample_world (Some (Inr ''echo hello''))
        (Returned \<lparr>stdout = [], stderr = [], returncode = - 9\<rparr>))
      (expect_argv ''echo hello'') 600 =
     Returned \<lparr>stdout = [], stderr = [], returncode = - 9\<rparr>
   \<and> fst (main (sample_world (Some (Inr ''echo hello''))
        (Returned \<lparr>stdout = [], stderr = [], returncode = - 9\<rparr>))) = Exit (- 9)
   \<and> exit_status (fst (main (sample_world (Some (Inr ''echo hello''))
        (Returned \<lparr>stdout = [], stderr = [], returncode = - 9\<rparr>)))) = 247
   \<and> exit_status (fst (main (sample_world (Some (Inr ''echo hello''))
        (Returned \<lparr>stdout = [], stderr = [], returncode = - 9\<rparr>)))) \<noteq>
       returncode \<lparr>stdout = [], stderr = [], returncode = - 9\<rparr>"
proof -
  have "main (sample_world (Some (Inr ''echo hello''))
        (Returned \<lparr>stdout = [], stderr = [], returncode = - 9\<rparr>)) =
      (Exit (- 9),
       (built (sample_world (Some (Inr ''echo hello''))
          (Returned \<lparr>stdout = [], stderr = [], returncode = - 9\<rparr>)) ''echo hello'')
       \<lparr>result := Some \<lparr>stdout = [], stderr = [], returncode = - 9\<rparr>,
          trace := [Subprocess_run (expect_argv ''echo hello'') 600,
                    Child_started (expect_argv ''echo hello''),
                    Write_stdout ([] @ newline)] @ []\<rparr>)"
    using main_returned [OF sample_read sample_reply,
        of "''echo hello''" "\<lparr>stdout = [], stderr = [], returncode = - 9\<rparr>"]
    by simp
  then show ?thesis
    by (simp add: sample_reply)
qed

text \<open>
  Claim C1, amended. When the call of the automation utility returns, the script writes the
  captured standard output to its standard output, writes the captured standard error
  (after \<open>STDERR:\<close>) to its error stream exactly when that text is not empty, and ends
  through \<^verbatim>\<open>sys.exit\<close> with the return code of the utility as its argument; for every
  return code from 0 to 255, zero or not, that exact code is the exit status of the
  script.
\<close>

theorem completed_subprocess_is_reported:
  assumes call: "(argv, t) \<in> set (calls (trace (snd (main w))))"
    and reply: "subprocess_reply w argv t = Returned r"
  shows "stdout_text (trace (snd (main w))) = stdout r @ newline
       \<and> stderr_text (trace (snd (main w))) =
           (if stderr r = [] then [] else ''STDERR: '' @ stderr r @ newline)
       \<and> fst (main w) = Exit (returncode r)
       \<and> (0 \<le> returncode r \<and> returncode r < 256 \<longrightarrow>
            exit_status (fst (main w)) = returncode r)"
proof -
  from call obtain body where read: "open_read w (setup_script_path w) = Inr body"
    and argv: "argv = expect_argv body" and t: "t = 600"
    by (rule call_made)
  from reply argv t have "subprocess_reply w (expect_argv body) 600 = Returned r"
    by simp
  with read have "main w = (Exit (returncode r), (built w body)\<lparr>result := Some r, trace :=
       [Subprocess_run (expect_argv body) 600, Child_started (expect_argv body),
        Write_stdout (stdout r @ newline)] @
       (if stderr r \<noteq> [] then [Write_stderr (''STDERR: '' @ stderr r @ newline)] else [])\<rparr>)"
    by (rule main_returned)
  then show ?thesis
    by simp
qed

theorem completed_subprocess_is_reported_witness:
  "stdout_text (trace (snd (main (sample_world (Some (Inr ''echo hello''))
       (Returned \<lparr>stdout = ''ok'', stderr = [], returncode = 0\<rparr>))))) = ''ok'' @ newline
   \<and> stderr_text (trace (snd (main (sample_world (Some (Inr ''echo hello''))
       (Returned \<lparr>stdout = ''ok'', stderr = [], returncode = 0\<rparr>))))) = []
   \<and> fst (main (sample_world (Some (Inr ''echo hello''))
       (Returned \<lparr>stdout = ''ok'', stderr = [], returncode = 0\<rparr>))) = Exit 0
   \<and> stderr_text (trace (snd (main (sample_world (Some (Inr ''echo hello''))
       (Returned \<lparr>stdout = ''out'', stderr = ''boom'', returncode = 3\<rparr>))))) =
       ''STDERR: boom'' @ newline
   \<and> exit_status (fst (main (sample_world (Some (Inr ''echo hello''))
       (Returned \<lparr>stdout = ''ok'', stderr = [], returncode = 0\<rparr>)))) = 0
   \<and> fst (main (sample_world (Some (Inr ''echo hello''))
       (Returned \<lparr>stdout = ''out'', stderr = ''boom'', returncode = 3\<rparr>))) = Exit 3
   \<and> exit_status (fst (main (sample_world (Some (Inr ''echo hello''))
       (Returned \<lparr>stdout = ''out'', stderr = ''boom'', returncode = 3\<rparr>)))) = 3"
  using completed_subprocess_is_reported [OF sample_call sample_reply,
      of "''echo hello''" "\<lparr>stdout = ''ok'', stderr = [], returncode = 0\<rparr>"]
    completed_subprocess_is_reported [OF sample_call sample_reply,
      of "''echo hello''" "\<lparr>stdout = ''out'', stderr = ''boom'', returncode = 3\<rparr>"]
  by simp

lemma fallback_holds_host: "sublist VPS_IP fallback_block"
proof -
  have "fallback_block =
     (py_print [''expect not found. Trying alternative method...''] @
      py_print [newline @ rule60] @
      py_print [''Please run this command manually:''] @
      py_print [rule60] @
      newline @ ''scp infra/setup-on-server.sh root@'') @
     VPS_IP @
     ('':/tmp/'' @ newline @
      py_print [newline @ ''ssh root@'' @ VPS_IP] @
      py_print [''chmod +x /tmp/setup-on-server.sh''] @
      py_print [''/tmp/setup-on-server.sh''] @
      py_print [newline @ rule60])"
    by (simp add: fallback_block_def py_print_def)
  then show ?thesis
    by (metis sublist_appendI)
qed

lemma fallback_holds_notice:
  "sublist ''expect not found. Trying alternative method...'' fallback_block"
proof -
  have "fallback_block =
     [] @ ''expect not found. Trying alternative method...'' @
     (newline @
      py_print [newline @ rule60] @
      py_print [''Please run this command manually:''] @
      py_print [rule60] @
      py_print [newline @ ''scp infra/setup-on-server.sh root@'' @ VPS_IP @ '':/tmp/''] @
      py_print [newline @ ''ssh root@'' @ VPS_IP] @
      py_print [''chmod +x /tmp/setup-on-server.sh''] @
      py_print [''/tmp/setup-on-server.sh''] @
      py_print [newline @ rule60])"
    by (simp add: fallback_block_def py_print_def)
  then show ?thesis
    by (metis sublist_appendI)
qed

lemma fallback_holds_instructions:
  "sublist ''Please run this command manually:'' fallback_block"
proof -
  have "fallback_block =
     (py_print [''expect not found. Trying alternative method...''] @
      py_print [newline @ rule60]) @
     ''Please run this command manually:'' @
     (newline @
      py_print [rule60] @
      py_print [newline @ ''scp infra/setup-on-server.sh root@'' @ VPS_IP @ '':/tmp/''] @
      py_print [newline @ ''ssh root@'' @ VPS_IP] @
      py_print [''chmod +x /tmp/setup-on-server.sh''] @
      py_print [''/tmp/setup-on-server.sh''] @
      py_print [newline @ rule60])"
    by (simp add: fallback_block_def py_print_def)
  then show ?thesis
    by (metis sublist_appendI)
qed

lemma fallback_not_empty: "fallback_block \<noteq> []"
  by (simp add: fallback_block_def py_print_def)

text \<open>
  Claim C2. When the call of the automation utility raises \<open>FileNotFoundError\<close>, the script
  prints the fallback notice and the manual instructions, which hold the host address,
  ends with status 1, and no child program has started: nothing that could open a network
  connection ever ran.
\<close>

theorem missing_utility_falls_back:
  assumes call: "(argv, t) \<in> set (calls (trace (snd (main w))))"
    and reply: "subprocess_reply w argv t = Cannot_execute FileNotFoundError"
  shows "stdout_text (trace (snd (main w))) = fallback_block
       \<and> sublist ''expect not found. Trying alternative method...'' fallback_block
       \<and> sublist ''Please run this command manually:'' fallback_block
       \<and> sublist VPS_IP fallback_block
       \<and> fst (main w) = Exit 1
       \<and> exit_status (fst (main w)) = 1
       \<and> children (trace (snd (main w))) = []"
proof -
  from call obtain body where read: "open_read w (setup_script_path w) = Inr body"
    and argv: "argv = expect_argv body" and t: "t = 600"
    by (rule call_made)
  from reply argv t
  have "subprocess_reply w (expect_argv body) 600 = Cannot_execute FileNotFoundError"
    by simp
  with read have "fst (main w) = Exit 1"
    and "stdout_text (trace (snd (main w))) = fallback_block"
    and "children (trace (snd (main w))) = []"
    by (simp_all add: main_not_found stdout_text_fallback [unfolded fallback_block_def] fallback_block_def)
  then show ?thesis
    using fallback_holds_notice fallback_holds_instructions fallback_holds_host by simp
qed

theorem missing_utility_falls_back_witness:
  "subprocess_reply (sample_world (Some (Inr ''echo hello'')) (Cannot_execute FileNotFoundError))
       (expect_argv ''echo hello'') 600 = Cannot_execute FileNotFoundError
   \<and> stdout_text (trace (snd (main
         (sample_world (Some (Inr ''echo hello'')) (Cannot_execute FileNotFoundError))))) =
       fallback_block
   \<and> sublist VPS_IP fallback_block
   \<and> fst (main (sample_world (Some (Inr ''echo hello'')) (Cannot_execute FileNotFoundError))) =
       Exit 1
   \<and> children (trace (snd (main
         (sample_world (Some (Inr ''echo hello'')) (Cannot_execute FileNotFoundError))))) = []"
  using missing_utility_falls_back [OF sample_call sample_reply, of "''echo hello''"]
  by (simp add: sample_reply)

lemma other_read: "open_read other_world (setup_script_path other_world) = Inr ''echo hello''"
  by (simp add: setup_script_path_def other_world_def os_path_dirname_def os_path_join_def
      rstrip_sep_def open_read_def)

lemma expect_script_main:
  "expect_script (snd (main w)) =
     (case open_read w (setup_script_path w) of
        Inl e \<Rightarrow> None
      | Inr body \<Rightarrow> Some (expect_script_text VPS_USER VPS_IP VPS_PASS body))"
proof (cases w rule: run_cases)
  case (read_fails e)
  then show ?thesis by (simp add: main_read_fails init_state_def)
next
  case (not_found body)
  then show ?thesis by (simp add: main_not_found built_def)
next
  case (cannot_execute body e)
  then show ?thesis by (simp add: main_cannot_execute built_def)
next
  case (timeout body)
  then show ?thesis by (simp add: main_timeout built_def)
next
  case (returned body r)
  then show ?thesis by (simp add: main_returned built_def)
qed

text \<open>
  Claim C4. The transcript is a function of the host, the user, the password and the text
  of the shell script, and of nothing else: in any two worlds whose read of the shell
  script gives the same text, whatever their clocks, process environments, other files,
  script locations and utilities, the run builds the same transcript,
  \<open>expect_script_text\<close> of the three constants and that text, and hands the same
  argument vector to \<^verbatim>\<open>subprocess.run\<close>.
\<close>

theorem transcript_depends_only_on_script_text:
  assumes "open_read w1 (setup_script_path w1) = Inr body"
    and "open_read w2 (setup_script_path w2) = Inr body"
  shows "expect_script (snd (main w1)) = Some (expect_script_text VPS_USER VPS_IP VPS_PASS body)
       \<and> expect_script (snd (main w2)) = expect_script (snd (main w1))
       \<and> calls (trace (snd (main w1))) = [(expect_argv body, 600)]
       \<and> calls (trace (snd (main w2))) = calls (trace (snd (main w1)))"
  using assms by (simp add: expect_script_main calls_main)

theorem transcript_depends_only_on_script_text_witness:
  "clock other_world \<noteq> clock (sample_world (Some (Inr ''echo hello'')) (Cannot_execute FileNotFoundError))
   \<and> dunder_file other_world \<noteq>
       dunder_file (sample_world (Some (Inr ''echo hello'')) (Cannot_execute FileNotFoundError))
   \<and> expect_script (snd (main other_world)) =
       expect_script (snd (main
         (sample_world (Some (Inr ''echo hello'')) (Cannot_execute FileNotFoundError))))
   \<and> expect_script (snd (main other_world)) =
       Some (expect_script_text ''root'' ''159.89.113.242'' ''AVallon1231402@rooot'' ''echo hello'')"
proof -
  have "clock other_world \<noteq>
      clock (sample_world (Some (Inr ''echo hello'')) (Cannot_execute FileNotFoundError))"
    and "dunder_file other_world \<noteq>
      dunder_file (sample_world (Some (Inr ''echo hello'')) (Cannot_execute FileNotFoundError))"
    by (simp_all add: other_world_def sample_world_def)
  then show ?thesis
    using transcript_depends_only_on_script_text [OF sample_read other_read,
        of "Cannot_execute FileNotFoundError"]
    by (simp add: VPS_USER_def VPS_IP_def VPS_PASS_def)
qed

text \<open>
  Claim C5. If the shell script file does not exist, the run ends with the uncaught
  \<open>FileNotFoundError\<close> of the read, so with a non-zero status; the script has written
  nothing, has not called \<^verbatim>\<open>subprocess.run\<close>, and no child program has started.
\<close>

theorem missing_script_file_aborts:
  assumes "files w (setup_script_path w) = None"
  shows "fst (main w) = Traceback FileNotFoundError
       \<and> exit_status (fst (main w)) \<noteq> 0
       \<and> trace (snd (main w)) = []
       \<and> calls (trace (snd (main w))) = []
       \<and> children (trace (snd (main w))) = []"
proof -
  from assms have "open_read w (setup_script_path w) = Inl FileNotFoundError"
    by (simp add: open_read_def)
  then have "main w = (Traceback FileNotFoundError,
      init_state\<lparr>script_path := Some (setup_script_path w)\<rparr>)"
    by (rule main_read_fails)
  then show ?thesis
    by (simp add: init_state_def)
qed

theorem missing_script_file_aborts_witness:
  "files (sample_world None (Returned \<lparr>stdout = ''ok'', stderr = [], returncode = 0\<rparr>))
      (setup_script_path (sample_world None (Returned \<lparr>stdout = ''ok'', stderr = [], returncode = 0\<rparr>))) = None
   \<and> fst (main (sample_world None (Returned \<lparr>stdout = ''ok'', stderr = [], returncode = 0\<rparr>))) =
       Traceback FileNotFoundError
   \<and> exit_status (fst (main (sample_world None (Returned \<lparr>stdout = ''ok'', stderr = [], returncode = 0\<rparr>)))) = 1
   \<and> trace (snd (main (sample_world None (Returned \<lparr>stdout = ''ok'', stderr = [], returncode = 0\<rparr>)))) = []"
proof -
  have none: "files (sample_world None r) (setup_script_path (sample_world None r)) = None" for r
    by (simp add: sample_path sample_files)
  show ?thesis
    using none missing_script_file_aborts [OF none, of "Returned \<lparr>stdout = ''ok'', stderr = [], returncode = 0\<rparr>"]
    by simp
qed

text \<open>
  Claim C6 says that on the fallback path the manual instructions go to the error stream
  and not to standard output. In the sample world without the utility the error stream
  stays empty and the instructions are on standard output: the \<^verbatim>\<open>print\<close> calls of lines
  43 to 52 name no \<^verbatim>\<open>file\<close>.
\<close>

theorem fallback_goes_to_stderr_counterexample:
  "stderr_text (trace (snd (main
       (sample_world (Some (Inr ''echo hello'')) (Cannot_execute FileNotFoundError))))) = []
   \<and> sublist ''Please run this command manually:''
        (stdout_text (trace (snd (main
           (sample_world (Some (Inr ''echo hello'')) (Cannot_execute FileNotFoundError))))))"
proof -
  have "main (sample_world (Some (Inr ''echo hello'')) (Cannot_execute FileNotFoundError)) =
      (Exit 1, (built (sample_world (Some (Inr ''echo hello'')) (Cannot_execute FileNotFoundError))
         ''echo hello'')\<lparr>trace := [Subprocess_run (expect_argv ''echo hello'') 600,
       Write_stdout (py_print [''expect not found. Trying alternative method...'']),
       Write_stdout (py_print [newline @ rule60]),
       Write_stdout (py_print [''Please run this command manually:'']),
       Write_stdout (py_print [rule60]),
       Write_stdout (py_print [newline @ ''scp infra/setup-on-server.sh root@'' @ VPS_IP @ '':/tmp/'']),
       Write_stdout (py_print [newline @ ''ssh root@'' @ VPS_IP]),
       Write_stdout (py_print [''chmod +x /tmp/setup-on-server.sh'']),
       Write_stdout (py_print [''/tmp/setup-on-server.sh'']),
       Write_stdout (py_print [newline @ rule60])]\<rparr>)"
    by (rule main_not_found [OF sample_read sample_reply])
  then have "stderr_text (trace (snd (main
       (sample_world (Some (Inr ''echo hello'')) (Cannot_execute FileNotFoundError))))) = []"
    and "stdout_text (trace (snd (main
       (sample_world (Some (Inr ''echo hello'')) (Cannot_execute FileNotFoundError))))) =
       fallback_block"
    by (simp_all add: fallback_block_def)
  then show ?thesis
    using fallback_holds_instructions by simp
qed

text \<open>
  Claim C6, amended. Standard output carries the remote session output and, when the
  automation utility is missing, the fallback notice and manual instructions; the error
  stream carries any error text captured from the subprocess. On the fallback path the
  manual instructions are written to standard output, and nothing is written to the error
  stream. Both paths end through \<^verbatim>\<open>sys.exit\<close>, so the interpreter adds no traceback.
\<close>

theorem streams_on_the_exit_paths:
  assumes call: "(argv, t) \<in> set (calls (trace (snd (main w))))"
  shows "(\<forall>r. subprocess_reply w argv t = Returned r \<longrightarrow>
            fst (main w) = Exit (returncode r)
          \<and> stdout_text (trace (snd (main w))) = stdout r @ newline
          \<and> stderr_text (trace (snd (main w))) =
              (if stderr r = [] then [] else ''STDERR: '' @ stderr r @ newline))
       \<and> (subprocess_reply w argv t = Cannot_execute FileNotFoundError \<longrightarrow>
            fst (main w) = Exit 1
          \<and> stdout_text (trace (snd (main w))) = fallback_block
          \<and> sublist ''Please run this command manually:'' (stdout_text (trace (snd (main w))))
          \<and> stderr_text (trace (snd (main w))) = [])"
proof -
  from call obtain body where read: "open_read w (setup_script_path w) = Inr body"
    and argv: "argv = expect_argv body" and t: "t = 600"
    by (rule call_made)
  have returned: "fst (main w) = Exit (returncode r)
          \<and> stdout_text (trace (snd (main w))) = stdout r @ newline
          \<and> stderr_text (trace (snd (main w))) =
              (if stderr r = [] then [] else ''STDERR: '' @ stderr r @ newline)"
    if "subprocess_reply w argv t = Returned r" for r
    using that read argv t by (simp add: main_returned)
  have missing: "fst (main w) = Exit 1
          \<and> stdout_text (trace (snd (main w))) = fallback_block
          \<and> sublist ''Please run this command manually:'' (stdout_text (trace (snd (main w))))
          \<and> stderr_text (trace (snd (main w))) = []"
    if "subprocess_reply w argv t = Cannot_execute FileNotFoundError"
  proof -
    from that read argv t have "fst (main w) = Exit 1"
      and "stdout_text (trace (snd (main w))) = fallback_block"
      and "stderr_text (trace (snd (main w))) = []"
      by (simp_all add: main_not_found fallback_block_def)
    then show ?thesis
      using fallback_holds_instructions by simp
  qed
  from returned missing show ?thesis
    by blast
qed

theorem streams_on_the_exit_paths_witness:
  "subprocess_reply (sample_world (Some (Inr ''echo hello'')) (Cannot_execute FileNotFoundError))
       (expect_argv ''echo hello'') 600 = Cannot_execute FileNotFoundError
   \<and> stdout_text (trace (snd (main
       (sample_world (Some (Inr ''echo hello'')) (Cannot_execute FileNotFoundError))))) =
     fallback_block
   \<and> stderr_text (trace (snd (main
       (sample_world (Some (Inr ''echo hello'')) (Cannot_execute FileNotFoundError))))) = []
   \<and> stdout_text (trace (snd (main (sample_world (Some (Inr ''echo hello''))
       (Returned \<lparr>stdout = ''out'', stderr = ''boom'', returncode = 3\<rparr>))))) = ''out'' @ newline
   \<and> stderr_text (trace (snd (main (sample_world (Some (Inr ''echo hello''))
       (Returned \<lparr>stdout = ''out'', stderr = ''boom'', returncode = 3\<rparr>))))) =
     ''STDERR: boom'' @ newline"
  using streams_on_the_exit_paths [OF sample_call,
      of "''echo hello''" "Cannot_execute FileNotFoundError"]
    streams_on_the_exit_paths [OF sample_call,
      of "''echo hello''" "Returned \<lparr>stdout = ''out'', stderr = ''boom'', returncode = 3\<rparr>"]
  by (simp add: sample_reply)

text \<open>
  Claim C7. Every call of the automation utility is made with a timeout of 600 seconds.
  Of the exceptions the call can raise only \<open>FileNotFoundError\<close> is handled (the run then
  ends with status 1); any other one, \<open>TimeoutExpired\<close> among them, ends the run
  uncaught. After a timeout the script has written nothing to either stream.
\<close>

theorem timeout_is_600_and_not_caught:
  assumes call: "(argv, t) \<in> set (calls (trace (snd (main w))))"
  shows "t = 600
       \<and> fst (main w) =
           (case subprocess_reply w argv t of
              Cannot_execute e \<Rightarrow> (if e = FileNotFoundError then Exit 1 else Traceback e)
            | Timed_out \<Rightarrow> Traceback TimeoutExpired
            | Returned r \<Rightarrow> Exit (returncode r))
       \<and> (subprocess_reply w argv t = Timed_out \<longrightarrow>
            stdout_text (trace (snd (main w))) = []
            \<and> stderr_text (trace (snd (main w))) = []
            \<and> exit_status (fst (main w)) = 1)"
proof -
  from call obtain body where read: "open_read w (setup_script_path w) = Inr body"
    and argv: "argv = expect_argv body" and t: "t = 600"
    by (rule call_made)
  show ?thesis
  proof (cases w rule: run_cases)
    case (read_fails e)
    with read show ?thesis by simp
  next
    case (not_found b)
    with read argv t show ?thesis by (simp add: main_not_found)
  next
    case (cannot_execute b e)
    with read argv t show ?thesis by (simp add: main_cannot_execute)
  next
    case (timeout b)
    with read argv t show ?thesis by (simp add: main_timeout)
  next
    case (returned b r)
    with read argv t show ?thesis by (simp add: main_returned)
  qed
qed

theorem timeout_is_600_and_not_caught_witness:
  "(expect_argv ''echo hello'', 600) \<in>
      set (calls (trace (snd (main (sample_world (Some (Inr ''echo hello'')) Timed_out)))))
   \<and> subprocess_reply (sample_world (Some (Inr ''echo hello'')) Timed_out)
        (expect_argv ''echo hello'') 600 = Timed_out
   \<and> fst (main (sample_world (Some (Inr ''echo hello'')) Timed_out)) = Traceback TimeoutExpired
   \<and> stdout_text (trace (snd (main (sample_world (Some (Inr ''echo hello'')) Timed_out)))) = []
   \<and> stderr_text (trace (snd (main (sample_world (Some (Inr ''echo hello'')) Timed_out)))) = []
   \<and> fst (main (sample_world (Some (Inr ''echo hello'')) (Cannot_execute PermissionError))) =
        Traceback PermissionError"
  using timeout_is_600_and_not_caught [OF sample_call, of "''echo hello''" Timed_out]
    timeout_is_600_and_not_caught [OF sample_call, of "''echo hello''"
      "Cannot_execute PermissionError"]
    sample_call [of "''echo hello''" Timed_out]
  by (simp add: sample_reply)

text \<open>
  Claim C10. When the utility returned: if its captured error text is empty the script
  writes nothing to its error stream, otherwise it writes exactly \<open>STDERR:\<close>, a space,
  that text and a newline; and the exit code is the return code whatever the error text:
  two runs whose utilities return the same code end the same way.
\<close>

theorem stderr_is_framed_and_leaves_the_exit_code:
  assumes call1: "(argv1, t1) \<in> set (calls (trace (snd (main w1))))"
    and reply1: "subprocess_reply w1 argv1 t1 = Returned r1"
    and call2: "(argv2, t2) \<in> set (calls (trace (snd (main w2))))"
    and reply2: "subprocess_reply w2 argv2 t2 = Returned r2"
    and same_code: "returncode r1 = returncode r2"
  shows "stderr_text (trace (snd (main w1))) =
           (if stderr r1 = [] then [] else ''STDERR:'' @ '' '' @ stderr r1 @ newline)
       \<and> fst (main w1) = Exit (returncode r1)
       \<and> fst (main w2) = fst (main w1)"
proof -
  from call1 obtain b1 where "open_read w1 (setup_script_path w1) = Inr b1"
    and "argv1 = expect_argv b1" and "t1 = 600"
    by (rule call_made)
  with reply1 have m1: "main w1 = (Exit (returncode r1), (built w1 b1)\<lparr>result := Some r1, trace :=
       [Subprocess_run (expect_argv b1) 600, Child_started (expect_argv b1),
        Write_stdout (stdout r1 @ newline)] @
       (if stderr r1 \<noteq> [] then [Write_stderr (''STDERR: '' @ stderr r1 @ newline)] else [])\<rparr>)"
    by (simp add: main_returned)
  from call2 obtain b2 where "open_read w2 (setup_script_path w2) = Inr b2"
    and "argv2 = expect_argv b2" and "t2 = 600"
    by (rule call_made)
  with reply2 have m2: "fst (main w2) = Exit (returncode r2)"
    by (simp add: main_returned)
  from m1 m2 same_code show ?thesis
    by simp
qed

theorem stderr_is_framed_and_leaves_the_exit_code_witness:
  "stderr_text (trace (snd (main (sample_world (Some (Inr ''echo hello''))
       (Returned \<lparr>stdout = ''ok'', stderr = [], returncode = 3\<rparr>))))) = []
   \<and> stderr_text (trace (snd (main (sample_world (Some (Inr ''echo hello''))
       (Returned \<lparr>stdout = ''ok'', stderr = ''boom'', returncode = 3\<rparr>))))) =
       ''STDERR: boom'' @ newline
   \<and> fst (main (sample_world (Some (Inr ''echo hello''))
       (Returned \<lparr>stdout = ''ok'', stderr = ''boom'', returncode = 3\<rparr>))) =
     fst (main (sample_world (Some (Inr ''echo hello''))
       (Returned \<lparr>stdout = ''ok'', stderr = [], returncode = 3\<rparr>)))"
  using stderr_is_framed_and_leaves_the_exit_code [OF sample_call sample_reply sample_call sample_reply,
      of "\<lparr>stdout = ''ok'', stderr = [], returncode = 3\<rparr>"
         "\<lparr>stdout = ''ok'', stderr = ''boom'', returncode = 3\<rparr>" "''echo hello''" "''echo hello''"]
    stderr_is_framed_and_leaves_the_exit_code [OF sample_call sample_reply sample_call sample_reply,
      of "\<lparr>stdout = ''ok'', stderr = ''boom'', returncode = 3\<rparr>"
         "\<lparr>stdout = ''ok'', stderr = [], returncode = 3\<rparr>" "''echo hello''" "''echo hello''"]
  by simp

section \<open>The order of a run\<close>

lemma calls_append: "calls (xs @ ys) = calls xs @ calls ys"
  by (induction xs rule: calls.induct) simp_all

lemma children_append: "children (xs @ ys) = children xs @ children ys"
  by (induction xs rule: children.induct) simp_all

lemma trajectory_preserves:
  "(\<forall>q s. n \<le> rank q \<longrightarrow> P s \<longrightarrow> P (snd (step w q s))) \<Longrightarrow>
   n \<le> rank p \<Longrightarrow> P st \<Longrightarrow> c \<in> set (trajectory w p st) \<Longrightarrow> P (snd c)"
proof (induction w p st rule: trajectory.induct)
  case (1 w p st)
  from "1.prems"(1,2,3) have next_ok: "P (snd (step w p st))"
    by blast
  from "1.prems"(4) consider "c = (At p, st)"
    | "c \<in> set (case fst (step w p st) of
                   At q \<Rightarrow> trajectory w q (snd (step w p st))
                 | Done r \<Rightarrow> [(Done r, snd (step w p st))])"
    by (subst (asm) trajectory.simps) auto
  then show ?case
  proof cases
    case 1
    with "1.prems"(3) show ?thesis by simp
  next
    case 2
    show ?thesis
    proof (cases "fst (step w p st)")
      case (At q)
      then have "rank p < rank q"
        by (rule step_forward)
      with "1.prems"(2) have "n \<le> rank q"
        by simp
      moreover from 2 At have "c \<in> set (trajectory w q (snd (step w p st)))"
        by simp
      ultimately show ?thesis
        using "1.IH" [OF At "1.prems"(1)] next_ok by blast
    next
      case (Done r)
      with 2 have "c = (Done r, snd (step w p st))"
        by simp
      with next_ok show ?thesis by simp
    qed
  qed
qed

lemma trajectory_not_empty: "trajectory w p st \<noteq> []"
  by (subst trajectory.simps) simp

text \<open>After line 16 no statement assigns the first three variables.\<close>

lemma step_keeps_variables:
  assumes "3 \<le> rank p"
  shows "script_path (snd (step w p st)) = script_path st"
    and "setup_script (snd (step w p st)) = setup_script st"
    and "expect_script (snd (step w p st)) = expect_script st"
  using assms
  by (cases p; simp add: raise_in_try_def emit_def Let_def
        split: option.splits run_reply.splits)+

text \<open>After line 32 no statement calls a program.\<close>

lemma step_keeps_calls:
  assumes "4 \<le> rank p"
  shows "calls (trace (snd (step w p st))) = calls (trace st)"
    and "children (trace (snd (step w p st))) = children (trace st)"
  using assms
  by (cases p; simp add: raise_in_try_def emit_def calls_append children_append
        split: option.splits)+

lemma step_L32:
  "expect_script (snd (step w L32 (built w body))) =
     Some (expect_script_text VPS_USER VPS_IP VPS_PASS body)"
  "setup_script (snd (step w L32 (built w body))) = Some body"
  "calls (trace (snd (step w L32 (built w body)))) = [(expect_argv body, 600)]"
  by (simp_all add: built_def raise_in_try_def emit_def Let_def expect_argv_def
        split: run_reply.splits)

lemma configs_read_fails:
  assumes "open_read w (setup_script_path w) = Inl e"
  shows "configs w =
     [(At L11, init_state),
      (At L12, init_state\<lparr>script_path := Some (setup_script_path w)\<rparr>),
      (Done (Traceback e), init_state\<lparr>script_path := Some (setup_script_path w)\<rparr>)]"
  using assms by (simp add: configs_def trajectory.simps init_state_def)

lemma configs_read:
  assumes "open_read w (setup_script_path w) = Inr body"
  shows "\<exists>rest.
     configs w =
       (At L11, init_state) #
       (At L12, init_state\<lparr>script_path := Some (setup_script_path w)\<rparr>) #
       (At L16, init_state\<lparr>script_path := Some (setup_script_path w),
                            setup_script := Some body\<rparr>) #
       (At L32, built w body) # rest
     \<and> rest \<noteq> []
     \<and> (\<forall>c \<in> set rest. after_call body (snd c))"
proof -
  define rest where "rest =
     (case fst (step w L32 (built w body)) of
        At q \<Rightarrow> trajectory w q (snd (step w L32 (built w body)))
      | Done r \<Rightarrow> [(Done r, snd (step w L32 (built w body)))])"
  have start: "after_call body (snd (step w L32 (built w body)))"
    unfolding after_call_def using step_L32 [of w body] by blast
  have keep: "\<forall>q s. 4 \<le> rank q \<longrightarrow> after_call body s \<longrightarrow> after_call body (snd (step w q s))"
    by (simp add: after_call_def step_keeps_variables step_keeps_calls)
  have inv: "after_call body (snd c)" if "c \<in> set rest" for c
  proof (cases "fst (step w L32 (built w body))")
    case (At q)
    then have "rank L32 < rank q"
      by (rule step_forward)
    then have "4 \<le> rank q"
      by simp
    moreover from that At have "c \<in> set (trajectory w q (snd (step w L32 (built w body))))"
      by (simp add: rest_def del: step.simps)
    ultimately show ?thesis
      using trajectory_preserves [OF keep _ start] by blast
  next
    case (Done r)
    with that start show ?thesis
      by (simp add: rest_def del: step.simps)
  qed
  have ne: "rest \<noteq> []"
    by (cases "fst (step w L32 (built w body))")
       (simp_all add: rest_def trajectory_not_empty del: step.simps)
  have "trajectory w L32 (built w body) = (At L32, built w body) # rest"
    by (subst trajectory.simps) (simp add: rest_def del: step.simps)
  with assms have "configs w =
       (At L11, init_state) #
       (At L12, init_state\<lparr>script_path := Some (setup_script_path w)\<rparr>) #
       (At L16, init_state\<lparr>script_path := Some (setup_script_path w),
                            setup_script := Some body\<rparr>) #
       (At L32, built w body) # rest"
    by (simp add: configs_def trajectory.simps [of w L11] trajectory.simps [of w L12]
        trajectory.simps [of w L16] init_state_def built_def)
  with ne inv show ?thesis
    by blast
qed




lemma trajectory_end:
  "last (trajectory w p st) = (Done (fst (run w p st)), snd (run w p st))"
proof (induction w p st rule: trajectory.induct)
  case (1 w p st)
  show ?case
  proof (cases "fst (step w p st)")
    case (At q)
    then have "last (trajectory w p st) = last (trajectory w q (snd (step w p st)))"
      by (subst trajectory.simps) (simp add: trajectory_not_empty del: step.simps)
    moreover from At have "run w p st = run w q (snd (step w p st))"
      by (subst run.simps) (simp del: step.simps)
    ultimately show ?thesis
      using "1.IH" [OF At] by simp
  next
    case (Done r)
    then have "last (trajectory w p st) = (Done r, snd (step w p st))"
      by (subst trajectory.simps) (simp del: step.simps)
    moreover from Done have "run w p st = (r, snd (step w p st))"
      by (subst run.simps) (simp del: step.simps)
    ultimately show ?thesis
      by simp
  qed
qed

lemma configs_end: "last (configs w) = (Done (fst (main w)), snd (main w))"
  by (simp add: configs_def main_def trajectory_end)

lemma configs_not_found:
  assumes "open_read w (setup_script_path w) = Inr body"
    and "subprocess_reply w (expect_argv body) 600 = Cannot_execute FileNotFoundError"
  shows "configs w ! 4 =
     (At L43, (built w body)\<lparr>trace := [Subprocess_run (expect_argv body) 600]\<rparr>)"
    and "4 < length (configs w)"
  using assms
  by (simp_all add: configs_def trajectory.simps init_state_def built_def expect_argv_def
      emit_def raise_in_try_def Let_def)

text \<open>
  Claim C9. The handler at line 43 is reached only in runs that have read the shell script:
  the variable holds its text there. If the file does not exist the run ends with the
  uncaught \<open>FileNotFoundError\<close> of the read, writes nothing and never reaches line 43,
  whatever the world would answer to a call of the utility, also when the utility is
  missing too.
\<close>

theorem fallback_only_after_the_script_was_read:
  "((At L43, st) \<in> set (configs w) \<longrightarrow>
      (\<exists>body. open_read w (setup_script_path w) = Inr body \<and> setup_script st = Some body))
   \<and> (files w (setup_script_path w) = None \<longrightarrow>
        fst (main w) = Traceback FileNotFoundError
        \<and> stdout_text (trace (snd (main w))) = []
        \<and> stderr_text (trace (snd (main w))) = []
        \<and> At L43 \<notin> fst ` set (configs w))"
proof (intro conjI impI)
  assume at: "(At L43, st) \<in> set (configs w)"
  show "\<exists>body. open_read w (setup_script_path w) = Inr body \<and> setup_script st = Some body"
  proof (cases "open_read w (setup_script_path w)")
    case (Inl e)
    then have "configs w =
       [(At L11, init_state),
        (At L12, init_state\<lparr>script_path := Some (setup_script_path w)\<rparr>),
        (Done (Traceback e), init_state\<lparr>script_path := Some (setup_script_path w)\<rparr>)]"
      by (rule configs_read_fails)
    with at show ?thesis
      by simp
  next
    case (Inr body)
    then obtain rest where cfg: "configs w =
         (At L11, init_state) #
         (At L12, init_state\<lparr>script_path := Some (setup_script_path w)\<rparr>) #
         (At L16, init_state\<lparr>script_path := Some (setup_script_path w),
                              setup_script := Some body\<rparr>) #
         (At L32, built w body) # rest"
      and inv: "\<And>c. c \<in> set rest \<Longrightarrow> after_call body (snd c)"
      using configs_read by blast
    from at cfg have "(At L43, st) \<in> set rest"
      by simp
    then have "after_call body st"
      using inv by fastforce
    with Inr show ?thesis
      by (simp add: after_call_def)
  qed
next
  assume none: "files w (setup_script_path w) = None"
  then have read: "open_read w (setup_script_path w) = Inl FileNotFoundError"
    by (simp add: open_read_def)
  then have "main w = (Traceback FileNotFoundError,
      init_state\<lparr>script_path := Some (setup_script_path w)\<rparr>)"
    by (rule main_read_fails)
  then show "fst (main w) = Traceback FileNotFoundError"
    and "stdout_text (trace (snd (main w))) = []"
    and "stderr_text (trace (snd (main w))) = []"
    by (simp_all add: init_state_def)
  from read have "configs w =
       [(At L11, init_state),
        (At L12, init_state\<lparr>script_path := Some (setup_script_path w)\<rparr>),
        (Done (Traceback FileNotFoundError),
         init_state\<lparr>script_path := Some (setup_script_path w)\<rparr>)]"
    by (rule configs_read_fails)
  then show "At L43 \<notin> fst ` set (configs w)"
    by simp
qed

theorem fallback_only_after_the_script_was_read_witness:
  "(At L43, (built (sample_world (Some (Inr ''echo hello'')) (Cannot_execute FileNotFoundError))
         ''echo hello'')\<lparr>trace := [Subprocess_run (expect_argv ''echo hello'') 600]\<rparr>)
      \<in> set (configs (sample_world (Some (Inr ''echo hello'')) (Cannot_execute FileNotFoundError)))
   \<and> (\<exists>body. open_read (sample_world (Some (Inr ''echo hello'')) (Cannot_execute FileNotFoundError))
          (setup_script_path
            (sample_world (Some (Inr ''echo hello'')) (Cannot_execute FileNotFoundError))) = Inr body)
   \<and> files (sample_world None (Cannot_execute FileNotFoundError))
        (setup_script_path (sample_world None (Cannot_execute FileNotFoundError))) = None
   \<and> subprocess_reply (sample_world None (Cannot_execute FileNotFoundError))
        (expect_argv ''echo hello'') 600 = Cannot_execute FileNotFoundError
   \<and> fst (main (sample_world None (Cannot_execute FileNotFoundError))) =
        Traceback FileNotFoundError
   \<and> stdout_text (trace (snd (main (sample_world None (Cannot_execute FileNotFoundError))))) = []
   \<and> At L43 \<notin> fst ` set (configs (sample_world None (Cannot_execute FileNotFoundError)))"
proof -
  let ?w = "sample_world (Some (Inr ''echo hello'')) (Cannot_execute FileNotFoundError)"
  let ?st = "(built ?w ''echo hello'')\<lparr>trace := [Subprocess_run (expect_argv ''echo hello'') 600]\<rparr>"
  have "configs ?w ! 4 = (At L43, ?st)" and "4 < length (configs ?w)"
    by (rule configs_not_found [OF sample_read sample_reply])+
  then have at: "(At L43, ?st) \<in> set (configs ?w)"
    by (metis nth_mem)
  have none: "files (sample_world None (Cannot_execute FileNotFoundError))
        (setup_script_path (sample_world None (Cannot_execute FileNotFoundError))) = None"
    by (simp add: sample_path sample_files)
  show ?thesis
    using at none
      fallback_only_after_the_script_was_read [of ?st ?w]
      fallback_only_after_the_script_was_read
        [of _ "sample_world None (Cannot_execute FileNotFoundError)"]
    by (simp add: sample_reply) blast
qed

end
